theory Spec2Isabelle
  imports Complex_Main "HOL-Library.Sublist" "HOL-Library.List_Lexorder" "HOL-Library.AList"
    "HOL-Library.Word"
begin

unbundle bit_operations_syntax

chapter \<open>The embedding\<close>

section \<open>Python strings and the language runtime\<close>

text \<open>
  A Python \<open>str\<close> is a sequence of Unicode code points. The texts handled by the
  monitor contain code points beyond one byte (the degree sign U+00B0 and the prime
  U+2032 of the DMS pattern), so a text is a list of code points, not a list of
  \<^typ>\<open>char\<close>. Dictionary keys and labels written as literals in the source are
  ASCII; they are kept as \<^typ>\<open>string\<close> literals and converted by \<open>str\<close> where
  they meet a text.
\<close>

type_synonym pystr = "nat list"

definition str :: "string \<Rightarrow> pystr" where
  "str s = map of_char s"

text \<open>
  Values as they appear in the item dictionaries and in their JSON form: \<open>None\<close>,
  booleans, integers, (finite) floats, strings and lists. A dictionary with literal
  keys is the list of its items in insertion order.
\<close>

datatype pyval = PNone | PBool bool | PInt int | PFloat rat | PStr pystr | PList "pyval list"

type_synonym pydict = "(string \<times> pyval) list"

text \<open>
  A \<open>datetime\<close> is naive or aware; the number is the microseconds from the epoch to the
  instant it denotes, a naive one being read as UTC (which is what
  \<open>pub.replace(tzinfo=timezone.utc)\<close> makes of it).
\<close>

datatype datetime = Naive int | Aware int

text \<open>
  What the source takes from the interpreter and not from this repository: the Unicode
  character database behind \<open>\d\<close>, \<open>\s\<close>, \<open>int()\<close>, \<open>float()\<close>, \<open>str.lower()\<close>,
  \<open>str.upper()\<close> and \<open>str.strip()\<close>, the rounding of a real number to the
  nearest binary64 value, \<open>datetime.fromisoformat\<close> (\<open>None\<close> for the \<open>ValueError\<close> of a
  string it rejects) and \<open>str()\<close> of a value that is not a string. On ASCII the model fixes all of these; beyond ASCII they are
  the fields of a \<open>runtime\<close>, about which nothing is assumed unless a theorem says so.
  \<open>uni_lower\<close> sees the code points before and after the one it maps, since
  \<open>str.lower()\<close> is context dependent (final sigma) and may return several code points.
\<close>

record runtime =
  uni_decimal :: "nat \<Rightarrow> nat option"
  uni_space :: "nat \<Rightarrow> bool"
  uni_lower :: "pystr \<Rightarrow> nat \<Rightarrow> pystr \<Rightarrow> pystr"
  uni_upper :: "nat \<Rightarrow> pystr"
  round64 :: "rat \<Rightarrow> rat"
  fromisoformat :: "pystr \<Rightarrow> datetime option"
  str_of :: "pyval \<Rightarrow> pystr"

text \<open>
  A runtime that knows ASCII only, computes with exact rationals and parses no date.
\<close>

definition ascii_runtime :: runtime where
  "ascii_runtime = \<lparr> uni_decimal = (\<lambda>c. None), uni_space = (\<lambda>c. False),
     uni_lower = (\<lambda>before c after. [c]), uni_upper = (\<lambda>c. [c]), round64 = (\<lambda>x. x),
     fromisoformat = (\<lambda>s. None), str_of = (\<lambda>v. []) \<rparr>"

text \<open>\<open>str.lower()\<close>\<close>

fun lower_from :: "runtime \<Rightarrow> pystr \<Rightarrow> pystr \<Rightarrow> pystr" where
  "lower_from R before [] = []"
| "lower_from R before (c # cs) =
     (if c < 128 then [if 65 \<le> c \<and> c \<le> 90 then c + 32 else c]
      else uni_lower R before c cs) @ lower_from R (before @ [c]) cs"

definition lower :: "runtime \<Rightarrow> pystr \<Rightarrow> pystr" where
  "lower R s = lower_from R [] s"

text \<open>The operator \<open>kw in s\<close> on two strings: \<open>kw\<close> occurs in \<open>s\<close> as a contiguous block.\<close>

fun str_in :: "pystr \<Rightarrow> pystr \<Rightarrow> bool" where
  "str_in kw [] = (kw = [])"
| "str_in kw (c # cs) = (prefix kw (c # cs) \<or> str_in kw cs)"

section \<open>Exceptions and dictionaries\<close>

datatype error = KeyError | IndexError | ValueError | TypeError | UnicodeEncodeError

text \<open>
  A dictionary literal is the list of its items in insertion order, which is the order
  \<open>.items()\<close> iterates in. \<open>d[k]\<close> raises \<open>KeyError\<close> for a missing key.
\<close>

definition getitem :: "('k \<times> 'v) list \<Rightarrow> 'k \<Rightarrow> error + 'v" where
  "getitem d k = (case map_of d k of None \<Rightarrow> Inl KeyError | Some v \<Rightarrow> Inr v)"

text \<open>Sequencing of two steps of which the first may raise.\<close>

definition ebind :: "error + 'a \<Rightarrow> ('a \<Rightarrow> error + 'b) \<Rightarrow> error + 'b" where
  "ebind x f = (case x of Inl e \<Rightarrow> Inl e | Inr v \<Rightarrow> f v)"

section \<open>Classification engine (\<open>processors/geo_tagger.py\<close>)\<close>

definition CATEGORY_KEYWORDS :: "(string \<times> pystr list) list" where
  "CATEGORY_KEYWORDS =
    [(''conflict'', map str
       [''attack'', ''airstrike'', ''explosion'', ''missile'', ''troops'', ''battle'',
        ''war'', ''military'', ''drone'', ''shelling'', ''killed'', ''wounded'', ''gun'',
        ''bomb'', ''forces'', ''offensive'', ''ceasefire'', ''strike'']),
     (''disaster'', map str
       [''earthquake'', ''flood'', ''hurricane'', ''tornado'', ''wildfire'', ''tsunami'',
        ''eruption'', ''cyclone'', ''storm'', ''landslide'', ''drought'', ''fire'']),
     (''politics'', map str
       [''election'', ''coup'', ''protest'', ''president'', ''minister'', ''government'',
        ''parliament'', ''sanctions'', ''treaty'', ''vote'', ''arrested'']),
     (''breaking'', map str
       [''breaking'', ''urgent'', ''alert'', ''developing'', ''just in'', ''update''])]"

definition TOPIC_KEYWORDS :: "(string \<times> pystr list) list" where
  "TOPIC_KEYWORDS =
    [(''war'', map str
       [''war'', ''warfare'', ''invasion'', ''offensive'', ''airstrike'', ''shelling'',
        ''artillery'', ''troops'', ''military operation'', ''front line'', ''frontline'',
        ''combat'', ''battle'', ''siege'', ''ceasefire'', ''missile strike'',
        ''drone strike'', ''armed forces'', ''warzone'', ''war zone'', ''casualties'',
        ''soldiers killed'', ''naval'', ''ground forces'', ''occupation'', ''liberated'',
        ''captured territory'', ''counter-offensive'']),
     (''protests'', map str
       [''protest'', ''riot'', ''demonstration'', ''unrest'', ''uprising'', ''marching'',
        ''marchers'', ''demonstrators'', ''crowd'', ''clashes with police'', ''tear gas'',
        ''water cannon'', ''civil unrest'', ''strike'', ''walkout'', ''blockade'',
        ''occupation'', ''mob'', ''looting'', ''burning'', ''barricade'', ''crackdown'',
        ''dispersed'', ''detained protesters'', ''activists arrested'', ''rallied'',
        ''rally'', ''picket'', ''insurrection'']),
     (''christian_persecution'', map str
       [''christian'', ''christianity'', ''church'', ''cathedral'', ''pastor'', ''priest'',
        ''bishop'', ''missionary'', ''cross'', ''bible'', ''congregation'', ''evangelist'',
        ''christian minority'', ''religious persecution'', ''faith'', ''worship'',
        ''sunday service'', ''christian convert'', ''church attack'', ''church burned'',
        ''church destroyed'', ''blasphemy'', ''apostasy'', ''religious freedom'',
        ''christian arrested'', ''christian killed'', ''anti-christian'',
        ''christian community'', ''diocese'', ''monastery'', ''convent'',
        ''christian school'']),
     (''terrorism'', map str
       [''terrorist'', ''terrorism'', ''terror attack'', ''suicide bomber'',
        ''suicide bombing'', ''ied'', ''improvised explosive'', ''jihadist'', ''isis'',
        ''isil'', ''al-qaeda'', ''al qaeda'', ''boko haram'', ''al-shabaab'', ''taliban'',
        ''lone wolf'', ''radicalized'', ''extremist'', ''car bomb'', ''vehicle attack'',
        ''knife attack'', ''mass shooting'', ''hostage'', ''kidnapping'', ''abduction'',
        ''ransom'', ''beheading'', ''massacre'', ''gunman'', ''active shooter'',
        ''claimed responsibility'', ''terror cell'', ''bomb threat'', ''explosive device'',
        ''detonated'', ''attack on civilians'']),
     (''natural_disasters'', map str
       [''earthquake'', ''magnitude'', ''tremor'', ''aftershock'', ''seismic'',
        ''flood'', ''flooding'', ''flash flood'', ''dam breach'', ''levee'',
        ''hurricane'', ''typhoon'', ''cyclone'', ''tropical storm'', ''category'',
        ''tornado'', ''twister'', ''funnel cloud'',
        ''wildfire'', ''forest fire'', ''bushfire'', ''blaze'',
        ''tsunami'', ''tidal wave'',
        ''volcanic eruption'', ''volcano'', ''lava'', ''ash cloud'',
        ''landslide'', ''mudslide'', ''avalanche'',
        ''drought'', ''famine'', ''heatwave'', ''heat wave'',
        ''storm surge'', ''blizzard'', ''extreme weather'', ''disaster zone'',
        ''emergency declared'', ''natural disaster'', ''evacuated'', ''death toll''])]"

definition SEVERITY_KEYWORDS :: "(int \<times> pystr list) list" where
  "SEVERITY_KEYWORDS =
    [(5, map str [''mass casualty'', ''nuclear'', ''catastrophic'', ''major offensive'',
                  ''capital seized'']),
     (4, map str [''dozens killed'', ''city under attack'', ''state of emergency'', ''coup'']),
     (3, map str [''casualties'', ''explosion'', ''airstrike'', ''protest'', ''arrested'']),
     (2, map str [''clashes'', ''tensions'', ''evacuation'', ''warning'']),
     (1, [])]"

text \<open>
  The innermost loop of all three classifiers,
  \<^verbatim>\<open>for kw in keywords: if kw in text_lower: ...\<close>,
  whose body leaves the loop at the first hit (by \<open>return\<close> or \<open>break\<close>). The result
  says whether the body was reached.
\<close>

fun kw_loop :: "pystr list \<Rightarrow> pystr \<Rightarrow> bool" where
  "kw_loop [] text_lower = False"
| "kw_loop (kw # kws) text_lower =
     (if str_in kw text_lower then True else kw_loop kws text_lower)"

text \<open>
  \<^verbatim>\<open>for cat in [...]: for kw in CATEGORY_KEYWORDS[cat]: if kw in text_lower: return cat\<close>.
  \<open>Inr (Some cat)\<close> is the \<open>return\<close>, \<open>Inr None\<close> is the loop running to its end.
\<close>

fun cat_loop :: "string list \<Rightarrow> pystr \<Rightarrow> error + string option" where
  "cat_loop [] text_lower = Inr None"
| "cat_loop (cat # cats) text_lower =
     (case getitem CATEGORY_KEYWORDS cat of
        Inl e \<Rightarrow> Inl e
      | Inr kws \<Rightarrow>
          if kw_loop kws text_lower then Inr (Some cat) else cat_loop cats text_lower)"

text \<open>The loop over the breaking keywords, with the nested re-check and \<open>return "breaking"\<close>.\<close>

fun breaking_loop :: "pystr list \<Rightarrow> pystr \<Rightarrow> error + string option" where
  "breaking_loop [] text_lower = Inr None"
| "breaking_loop (kw # kws) text_lower =
     (if str_in kw text_lower then
        (case cat_loop [''conflict'', ''disaster'', ''politics''] text_lower of
           Inl e \<Rightarrow> Inl e
         | Inr (Some cat) \<Rightarrow> Inr (Some cat)
         | Inr None \<Rightarrow> Inr (Some ''breaking''))
      else breaking_loop kws text_lower)"

definition classify_category :: "runtime \<Rightarrow> pystr \<Rightarrow> error + string" where
  "classify_category R text =
     (let text_lower = lower R text in
      case getitem CATEGORY_KEYWORDS ''breaking'' of
        Inl e \<Rightarrow> Inl e
      | Inr breaking \<Rightarrow>
         (case breaking_loop breaking text_lower of
            Inl e \<Rightarrow> Inl e
          | Inr (Some cat) \<Rightarrow> Inr cat
          | Inr None \<Rightarrow>
             (case cat_loop [''conflict'', ''disaster'', ''politics''] text_lower of
                Inl e \<Rightarrow> Inl e
              | Inr (Some cat) \<Rightarrow> Inr cat
              | Inr None \<Rightarrow> Inr ''general'')))"

text \<open>
  \<open>classify_topics\<close>: the loop over \<open>TOPIC_KEYWORDS.items()\<close>, appending to \<open>matched\<close>.
\<close>

fun topics_loop :: "(string \<times> pystr list) list \<Rightarrow> pystr \<Rightarrow> string list \<Rightarrow> string list" where
  "topics_loop [] text_lower matched = matched"
| "topics_loop ((topic, keywords) # items) text_lower matched =
     topics_loop items text_lower
       (if kw_loop keywords text_lower then matched @ [topic] else matched)"

definition classify_topics :: "runtime \<Rightarrow> pystr \<Rightarrow> string list" where
  "classify_topics R text = topics_loop TOPIC_KEYWORDS (lower R text) []"

fun level_loop :: "int list \<Rightarrow> pystr \<Rightarrow> error + int option" where
  "level_loop [] text_lower = Inr None"
| "level_loop (level # levels) text_lower =
     (case getitem SEVERITY_KEYWORDS level of
        Inl e \<Rightarrow> Inl e
      | Inr kws \<Rightarrow>
          if kw_loop kws text_lower then Inr (Some level) else level_loop levels text_lower)"

definition classify_severity :: "runtime \<Rightarrow> pystr \<Rightarrow> error + int" where
  "classify_severity R text =
     (case level_loop [5, 4, 3, 2] (lower R text) of
        Inl e \<Rightarrow> Inl e
      | Inr (Some level) \<Rightarrow> Inr level
      | Inr None \<Rightarrow> Inr 1)"







section \<open>Regular expressions (the fragment of \<open>re\<close> the patterns use)\<close>

text \<open>
  \<open>\d\<close> and \<open>\s\<close> in a \<open>str\<close> pattern are the Unicode decimal digits and the Unicode
  whitespace (on ASCII: \<open>0-9\<close>, and the code points 9 to 13, 28 to 31 and 32).
\<close>

definition digit_value :: "runtime \<Rightarrow> nat \<Rightarrow> nat option" where
  "digit_value R c =
     (if c < 128 then (if 48 \<le> c \<and> c \<le> 57 then Some (c - 48) else None)
      else uni_decimal R c)"

definition is_digit :: "runtime \<Rightarrow> nat \<Rightarrow> bool" where
  "is_digit R c = (digit_value R c \<noteq> None)"

definition is_space :: "runtime \<Rightarrow> nat \<Rightarrow> bool" where
  "is_space R c =
     (if c < 128 then c \<in> {9, 10, 11, 12, 13, 28, 29, 30, 31, 32} else uni_space R c)"

text \<open>
  \<open>Chr p\<close> is one code point of a class, \<open>Rep lo hi p\<close> the greedy repetition
  \<open>{lo,hi}\<close> of a class (\<open>hi = None\<close> for \<open>*\<close> and \<open>+\<close>), \<open>Opt\<close> is \<open>?\<close>, \<open>Seq\<close>
  is juxtaposition and \<open>Grp\<close> a capturing group.
\<close>

datatype rx =
    Chr "nat \<Rightarrow> bool"
  | Rep nat "nat option" "nat \<Rightarrow> bool"
  | Opt rx
  | Seq rx rx
  | Grp rx

text \<open>
  The backtracking matcher. A state is the input still to be read and the groups
  captured so far; the result lists every way the expression can match a prefix of the
  input, in the order in which the engine tries them (longest repetition first), so its
  head is the match the engine reports.
\<close>

fun rep :: "(nat \<Rightarrow> bool) \<Rightarrow> nat \<Rightarrow> nat option \<Rightarrow> pystr \<Rightarrow> pystr list" where
  "rep p lo hi [] = (if lo = 0 then [[]] else [])"
| "rep p lo hi (c # cs) =
     (if p c \<and> hi \<noteq> Some 0 then rep p (lo - 1) (map_option (\<lambda>h. h - 1) hi) cs else [])
     @ (if lo = 0 then [c # cs] else [])"

fun rx_match :: "rx \<Rightarrow> pystr \<times> pystr list \<Rightarrow> (pystr \<times> pystr list) list" where
  "rx_match (Chr p) (s, groups) =
     (case s of [] \<Rightarrow> [] | c # cs \<Rightarrow> if p c then [(cs, groups)] else [])"
| "rx_match (Rep lo hi p) (s, groups) = map (\<lambda>rest. (rest, groups)) (rep p lo hi s)"
| "rx_match (Opt r) st = rx_match r st @ [st]"
| "rx_match (Seq r1 r2) st = concat (map (rx_match r2) (rx_match r1 st))"
| "rx_match (Grp r) (s, groups) =
     map (\<lambda>(rest, groups'). (rest, groups' @ [take (length s - length rest) s]))
       (rx_match r (s, groups))"

text \<open>\<open>pattern.search(text)\<close>: the match at the leftmost position that has one.\<close>

fun rx_search :: "rx \<Rightarrow> pystr \<Rightarrow> pystr list option" where
  "rx_search r [] = (case rx_match r ([], []) of [] \<Rightarrow> None | m # _ \<Rightarrow> Some (snd m))"
| "rx_search r (c # cs) =
     (case rx_match r (c # cs, []) of [] \<Rightarrow> rx_search r cs | m # _ \<Rightarrow> Some (snd m))"

text \<open>\<open>m.group(k)\<close> for \<open>k \<ge> 1\<close>; a group the pattern does not have raises \<open>IndexError\<close>.\<close>

definition group :: "pystr list \<Rightarrow> nat \<Rightarrow> error + pystr" where
  "group m k = (if 1 \<le> k \<and> k \<le> length m then Inr (m ! (k - 1)) else Inl IndexError)"

definition lit :: "nat \<Rightarrow> rx" where
  "lit c = Chr (\<lambda>x. x = c)"

section \<open>Coordinate extractor (\<open>processors/geo_tagger.py\<close>)\<close>

text \<open>\<^verbatim>\<open>(-?\d{1,3}\.\d+)\<close>\<close>

definition DECIMAL_NUMBER :: "runtime \<Rightarrow> rx" where
  "DECIMAL_NUMBER R =
     Grp (Seq (Opt (lit 45))
         (Seq (Rep 1 (Some 3) (is_digit R))
         (Seq (lit 46)
              (Rep 1 None (is_digit R)))))"

text \<open>\<^verbatim>\<open>(-?\d{1,3}\.\d+)\s*[,/]\s*(-?\d{1,3}\.\d+)\<close>\<close>

definition DECIMAL_COORD :: "runtime \<Rightarrow> rx" where
  "DECIMAL_COORD R =
     Seq (DECIMAL_NUMBER R)
    (Seq (Rep 0 None (is_space R))
    (Seq (Chr (\<lambda>c. c = 44 \<or> c = 47))
    (Seq (Rep 0 None (is_space R))
         (DECIMAL_NUMBER R))))"

text \<open>
  \<^verbatim>\<open>(\d{1,3})D(\d{1,2})P([NS])\s+(\d{1,3})D(\d{1,2})P([EW])\<close>, where \<open>D\<close> is the
  degree sign U+00B0 (176) and \<open>P\<close> the prime U+2032 (8242).
\<close>

definition DMS_COORD :: "runtime \<Rightarrow> rx" where
  "DMS_COORD R =
     Seq (Grp (Rep 1 (Some 3) (is_digit R)))
    (Seq (lit 176)
    (Seq (Grp (Rep 1 (Some 2) (is_digit R)))
    (Seq (lit 8242)
    (Seq (Grp (Chr (\<lambda>c. c = 78 \<or> c = 83)))
    (Seq (Rep 1 None (is_space R))
    (Seq (Grp (Rep 1 (Some 3) (is_digit R)))
    (Seq (lit 176)
    (Seq (Grp (Rep 1 (Some 2) (is_digit R)))
    (Seq (lit 8242)
         (Grp (Chr (\<lambda>c. c = 69 \<or> c = 87))))))))))))"

text \<open>
  \<open>int(s)\<close> and \<open>float(s)\<close> on the strings the patterns capture: a run of decimal
  digits, and an optional minus sign, digits, a point and digits. Any other string is
  reported as \<open>ValueError\<close>. A Python \<open>float\<close> is the rational number it stands for;
  every operation that yields a float rounds with \<open>round64\<close>.
\<close>

fun digits_value :: "runtime \<Rightarrow> pystr \<Rightarrow> nat \<Rightarrow> nat option" where
  "digits_value R [] acc = Some acc"
| "digits_value R (c # cs) acc =
     (case digit_value R c of None \<Rightarrow> None | Some d \<Rightarrow> digits_value R cs (10 * acc + d))"

definition py_int :: "runtime \<Rightarrow> pystr \<Rightarrow> error + int" where
  "py_int R s =
     (if s = [] then Inl ValueError
      else case digits_value R s 0 of None \<Rightarrow> Inl ValueError | Some n \<Rightarrow> Inr (int n))"

definition py_float :: "runtime \<Rightarrow> pystr \<Rightarrow> error + rat" where
  "py_float R s =
     (let negative = (s \<noteq> [] \<and> hd s = 45);
          body = (if negative then tl s else s);
          whole = takeWhile (\<lambda>c. c \<noteq> 46) body;
          frac = drop (length whole + 1) body
      in if whole = [] \<or> frac = [] then Inl ValueError
         else case (digits_value R whole 0, digits_value R frac 0) of
                (Some i, Some f) \<Rightarrow>
                  (let v = of_nat i + of_nat f / 10 ^ length frac
                   in Inr (round64 R (if negative then - v else v)))
              | _ \<Rightarrow> Inl ValueError)"

definition extract_decimal_coords :: "runtime \<Rightarrow> pystr \<Rightarrow> error + (rat \<times> rat) option" where
  "extract_decimal_coords R text =
     (case rx_search (DECIMAL_COORD R) text of
        None \<Rightarrow> Inr None
      | Some m \<Rightarrow>
          ebind (group m 1) (\<lambda>g1. ebind (py_float R g1) (\<lambda>lat.
          ebind (group m 2) (\<lambda>g2. ebind (py_float R g2) (\<lambda>lon.
            if - 90 \<le> lat \<and> lat \<le> 90 \<and> - 180 \<le> lon \<and> lon \<le> 180
            then Inr (Some (lat, lon)) else Inr None)))))"

definition extract_dms_coords :: "runtime \<Rightarrow> pystr \<Rightarrow> error + (rat \<times> rat) option" where
  "extract_dms_coords R text =
     (case rx_search (DMS_COORD R) text of
        None \<Rightarrow> Inr None
      | Some m \<Rightarrow>
          ebind (group m 1) (\<lambda>g1. ebind (py_int R g1) (\<lambda>d1.
          ebind (group m 2) (\<lambda>g2. ebind (py_int R g2) (\<lambda>m1.
          ebind (group m 3) (\<lambda>g3.
            let lat = round64 R (of_int d1 + round64 R (of_int m1 / 60));
                lat = (if g3 = str ''S'' then - lat else lat)
            in
          ebind (group m 4) (\<lambda>g4. ebind (py_int R g4) (\<lambda>d2.
          ebind (group m 5) (\<lambda>g5. ebind (py_int R g5) (\<lambda>m2.
          ebind (group m 6) (\<lambda>g6.
            let lon = round64 R (of_int d2 + round64 R (of_int m2 / 60));
                lon = (if g6 = str ''W'' then - lon else lon)
            in Inr (Some (lat, lon)))))))))))))"

text \<open>
  What the theorems that look at the value of a float need of the rounding: it is
  monotone, and an integer of at most 53 bits is a float. Both hold of binary64
  rounding to nearest.
\<close>

definition rounds_like_binary64 :: "(rat \<Rightarrow> rat) \<Rightarrow> bool" where
  "rounds_like_binary64 fl =
     ((\<forall>x y. x \<le> y \<longrightarrow> fl x \<le> fl y) \<and> (\<forall>k::int. \<bar>k\<bar> \<le> 2 ^ 53 \<longrightarrow> fl (of_int k) = of_int k))"

section \<open>Geo-resolution pipeline (\<open>processors/geo_tagger.py\<close>)\<close>

text \<open>
  The two collaborators of the resolver that are not code of this repository: the spaCy
  pipeline behind \<open>extract_locations_spacy\<close> and the Nominatim client, with its rate
  limiter and its cache, behind \<open>geocode_cached\<close>. Each call may depend on and change
  the state \<open>'w\<close> of the outside world (the cache, the network, the clock).
  \<open>spacy_entities\<close> returns the list built from the set of GPE and LOC entity texts,
  or \<open>None\<close> when the pipeline raises; \<open>geocode_cached\<close> returns
  \<open>(lat, lon, address)\<close> or \<open>None\<close>, as the source function does.
\<close>

record 'w services =
  spacy_entities :: "pystr \<Rightarrow> 'w \<Rightarrow> pystr list option \<times> 'w"
  geocode_cached :: "pystr \<Rightarrow> 'w \<Rightarrow> (rat \<times> rat \<times> pystr) option \<times> 'w"

definition extract_locations_spacy :: "'w services \<Rightarrow> pystr \<Rightarrow> 'w \<Rightarrow> pystr list \<times> 'w" where
  "extract_locations_spacy S text w =
     (case spacy_entities S (take 1000 text) w of
        (None, w') \<Rightarrow> ([], w')
      | (Some names, w') \<Rightarrow> (names, w'))"

text \<open>\<open>s.split(",")\<close>, \<open>s.strip()\<close> and \<open>s.upper()\<close>\<close>

fun split_on :: "nat \<Rightarrow> pystr \<Rightarrow> pystr list" where
  "split_on sep [] = [[]]"
| "split_on sep (c # cs) =
     (if c = sep then [] # split_on sep cs
      else case split_on sep cs of [] \<Rightarrow> [[c]] | part # parts \<Rightarrow> (c # part) # parts)"

definition strip :: "runtime \<Rightarrow> pystr \<Rightarrow> pystr" where
  "strip R s = rev (dropWhile (is_space R) (rev (dropWhile (is_space R) s)))"

definition upper :: "runtime \<Rightarrow> pystr \<Rightarrow> pystr" where
  "upper R s =
     concat (map (\<lambda>c. if c < 128 then [if 97 \<le> c \<and> c \<le> 122 then c - 32 else c]
                       else uni_upper R c) s)"

definition country_code :: "runtime \<Rightarrow> pystr \<Rightarrow> pystr" where
  "country_code R display =
     (let parts = split_on 44 display;
          country = (if parts \<noteq> [] then strip R (last parts) else [])
      in if length country \<ge> 2 then upper R (take 2 country) else [])"

text \<open>\<open>extract_decimal_coords(text) or extract_dms_coords(text)\<close>\<close>

definition raw_coords :: "runtime \<Rightarrow> pystr \<Rightarrow> error + (rat \<times> rat) option" where
  "raw_coords R text =
     (case extract_decimal_coords R text of
        Inl e \<Rightarrow> Inl e
      | Inr (Some coords) \<Rightarrow> Inr (Some coords)
      | Inr None \<Rightarrow> extract_dms_coords R text)"

definition coords_geo :: "rat \<Rightarrow> rat \<Rightarrow> pydict" where
  "coords_geo lat lon =
     [(''lat'', PFloat lat), (''lon'', PFloat lon),
      (''location_name'', PStr []), (''country_code'', PStr [])]"

definition place_geo :: "runtime \<Rightarrow> pystr \<Rightarrow> rat \<times> rat \<times> pystr \<Rightarrow> pydict" where
  "place_geo R loc result =
     (case result of (lat, lon, display) \<Rightarrow>
        [(''lat'', PFloat lat), (''lon'', PFloat lon),
         (''location_name'', PStr loc), (''country_code'', PStr (country_code R display))])"

text \<open>The loop \<open>for loc in locations\<close>; falling out of it returns the empty dictionary.\<close>

fun geocode_loop :: "runtime \<Rightarrow> 'w services \<Rightarrow> pystr list \<Rightarrow> 'w \<Rightarrow> pydict \<times> 'w" where
  "geocode_loop R S [] w = ([], w)"
| "geocode_loop R S (loc # locations) w =
     (case geocode_cached S loc w of
        (Some result, w') \<Rightarrow> (place_geo R loc result, w')
      | (None, w') \<Rightarrow> geocode_loop R S locations w')"

text \<open>
  \<open>hint_locations\<close> defaults to \<open>None\<close>; \<open>if hint_locations:\<close> holds for a list that
  is not empty.
\<close>

definition resolve_geo ::
  "runtime \<Rightarrow> 'w services \<Rightarrow> pystr \<Rightarrow> pystr list option \<Rightarrow> 'w \<Rightarrow> (error + pydict) \<times> 'w" where
  "resolve_geo R S text hint_locations w =
     (case raw_coords R text of
        Inl e \<Rightarrow> (Inl e, w)
      | Inr (Some (lat, lon)) \<Rightarrow> (Inr (coords_geo lat lon), w)
      | Inr None \<Rightarrow>
          (case extract_locations_spacy S text w of
             (locations, w1) \<Rightarrow>
               (let locations =
                      (case hint_locations of
                         Some (h # hs) \<Rightarrow> (h # hs) @ locations
                       | _ \<Rightarrow> locations)
                in case geocode_loop R S locations w1 of (geo, w2) \<Rightarrow> (Inr geo, w2))))"

text \<open>
  The fallback in the words of the specification. \<open>geocode_all\<close> geocodes every
  candidate in turn, each in the state the previous call left, whether or not an earlier
  one succeeded; \<open>first_success\<close> picks the first call of such a run that returned a
  result; \<open>state_after\<close> is the state at the end of a run.
\<close>

fun geocode_all ::
  "'w services \<Rightarrow> pystr list \<Rightarrow> 'w \<Rightarrow> (pystr \<times> (rat \<times> rat \<times> pystr) option \<times> 'w) list" where
  "geocode_all S [] w = []"
| "geocode_all S (loc # locations) w =
     (case geocode_cached S loc w of (r, w') \<Rightarrow> (loc, r, w') # geocode_all S locations w')"

fun first_success ::
  "(pystr \<times> (rat \<times> rat \<times> pystr) option \<times> 'w) list \<Rightarrow> (pystr \<times> (rat \<times> rat \<times> pystr) \<times> 'w) option" where
  "first_success [] = None"
| "first_success ((loc, None, w') # calls) = first_success calls"
| "first_success ((loc, Some result, w') # calls) = Some (loc, result, w')"

fun state_after :: "'w \<Rightarrow> (pystr \<times> (rat \<times> rat \<times> pystr) option \<times> 'w) list \<Rightarrow> 'w" where
  "state_after w [] = w"
| "state_after w ((loc, r, w') # calls) = state_after w' calls"

definition hint_names :: "pystr list option \<Rightarrow> pystr list" where
  "hint_names hint_locations = (case hint_locations of None \<Rightarrow> [] | Some hs \<Rightarrow> hs)"

text \<open>
  Services for examples: a geocoder that answers from a table and a recogniser that
  answers with a fixed list, both recording the geocoded names in the state.
\<close>

definition recording_services ::
  "pystr list \<Rightarrow> (pystr \<Rightarrow> (rat \<times> rat \<times> pystr) option) \<Rightarrow> (pystr list) services" where
  "recording_services names table =
     \<lparr> spacy_entities = (\<lambda>text log. (Some names, log)),
       geocode_cached = (\<lambda>loc log. (table loc, log @ [loc])) \<rparr>"

text \<open>The two texts the examples below are evaluated on.\<close>

definition earthquake_text :: pystr where
  "earthquake_text = str ''Earthquake of magnitude 7.1 strikes near 35.68,139.69''"

definition dms_text :: pystr where
  "dms_text = str ''100'' @ [176] @ str ''0'' @ [8242] @ str ''N 200''
     @ [176] @ str ''0'' @ [8242] @ str ''E''"

definition flood_text :: pystr where
  "flood_text = str ''Flooding reported in Lyon''"

definition paris_table :: "pystr \<Rightarrow> (rat \<times> rat \<times> pystr) option" where
  "paris_table loc =
     (if loc = str ''Paris''
      then Some (4885 / 100, 235 / 100, str ''Paris, Ile-de-France, France'')
      else None)"

section \<open>Identity function (\<open>processors/geo_tagger.py\<close>, \<open>scrapers/twitter_scraper.py\<close>)\<close>

text \<open>
  \<open>hashlib.sha256(s.encode()).hexdigest()[:16]\<close>. \<open>str.encode()\<close> is UTF-8 and raises
  \<open>UnicodeEncodeError\<close> on a lone surrogate (a code point from 55296 to 57343), which a
  Python string may hold; code points above 1114111, which it cannot hold, are refused
  too. SHA-256 is written out: padding, message schedule, 64 rounds per block.
\<close>

type_synonym byte = "8 word"
type_synonym word32 = "32 word"
type_synonym hash_state =
  "word32 \<times> word32 \<times> word32 \<times> word32 \<times> word32 \<times> word32 \<times> word32 \<times> word32"

definition utf8 :: "nat \<Rightarrow> byte list option" where
  "utf8 c =
     (if c < 128 then Some [of_nat c]
      else if c < 2048 then Some [of_nat (192 + c div 64), of_nat (128 + c mod 64)]
      else if c < 65536 then
        (if 55296 \<le> c \<and> c \<le> 57343 then None
         else Some [of_nat (224 + c div 4096), of_nat (128 + c div 64 mod 64),
                    of_nat (128 + c mod 64)])
      else if c < 1114112 then
        Some [of_nat (240 + c div 262144), of_nat (128 + c div 4096 mod 64),
              of_nat (128 + c div 64 mod 64), of_nat (128 + c mod 64)]
      else None)"

fun encode :: "pystr \<Rightarrow> error + byte list" where
  "encode [] = Inr []"
| "encode (c # cs) =
     (case utf8 c of
        None \<Rightarrow> Inl UnicodeEncodeError
      | Some bytes \<Rightarrow> ebind (encode cs) (\<lambda>rest. Inr (bytes @ rest)))"

definition round_constants :: "word32 list" where
  "round_constants =
     [1116352408, 1899447441, 3049323471, 3921009573, 961987163, 1508970993,
      2453635748, 2870763221, 3624381080, 310598401, 607225278, 1426881987,
      1925078388, 2162078206, 2614888103, 3248222580, 3835390401, 4022224774,
      264347078, 604807628, 770255983, 1249150122, 1555081692, 1996064986,
      2554220882, 2821834349, 2952996808, 3210313671, 3336571891, 3584528711,
      113926993, 338241895, 666307205, 773529912, 1294757372, 1396182291,
      1695183700, 1986661051, 2177026350, 2456956037, 2730485921, 2820302411,
      3259730800, 3345764771, 3516065817, 3600352804, 4094571909, 275423344,
      430227734, 506948616, 659060556, 883997877, 958139571, 1322822218,
      1537002063, 1747873779, 1955562222, 2024104815, 2227730452, 2361852424,
      2428436474, 2756734187, 3204031479, 3329325298]"

definition initial_hash :: hash_state where
  "initial_hash =
     (1779033703, 3144134277, 1013904242, 2773480762,
      1359893119, 2600822924, 528734635, 1541459225)"

definition ch :: "word32 \<Rightarrow> word32 \<Rightarrow> word32 \<Rightarrow> word32" where
  "ch x y z = (x AND y) XOR (NOT x AND z)"

definition maj :: "word32 \<Rightarrow> word32 \<Rightarrow> word32 \<Rightarrow> word32" where
  "maj x y z = (x AND y) XOR (x AND z) XOR (y AND z)"

definition big_sigma0 :: "word32 \<Rightarrow> word32" where
  "big_sigma0 x = word_rotr 2 x XOR word_rotr 13 x XOR word_rotr 22 x"

definition big_sigma1 :: "word32 \<Rightarrow> word32" where
  "big_sigma1 x = word_rotr 6 x XOR word_rotr 11 x XOR word_rotr 25 x"

definition small_sigma0 :: "word32 \<Rightarrow> word32" where
  "small_sigma0 x = word_rotr 7 x XOR word_rotr 18 x XOR drop_bit 3 x"

definition small_sigma1 :: "word32 \<Rightarrow> word32" where
  "small_sigma1 x = word_rotr 17 x XOR word_rotr 19 x XOR drop_bit 10 x"

definition be32 :: "byte list \<Rightarrow> word32" where
  "be32 bytes = foldl (\<lambda>acc b. push_bit 8 acc OR ucast b) 0 bytes"

fun be_bytes :: "nat \<Rightarrow> nat \<Rightarrow> byte list" where
  "be_bytes 0 v = []"
| "be_bytes (Suc n) v = be_bytes n (v div 256) @ [of_nat (v mod 256)]"

definition sha_pad :: "byte list \<Rightarrow> byte list" where
  "sha_pad m =
     m @ [128] @ replicate ((119 - length m mod 64) mod 64) 0 @ be_bytes 8 (8 * length m)"

definition blocks :: "byte list \<Rightarrow> byte list list" where
  "blocks bytes = map (\<lambda>i. take 64 (drop (64 * i) bytes)) [0..<length bytes div 64]"

definition block_words :: "byte list \<Rightarrow> word32 list" where
  "block_words block = map (\<lambda>i. be32 (take 4 (drop (4 * i) block))) [0..<16]"

definition extend :: "word32 list \<Rightarrow> word32 list" where
  "extend w =
     (let n = length w
      in w @ [small_sigma1 (w ! (n - 2)) + w ! (n - 7) + small_sigma0 (w ! (n - 15))
              + w ! (n - 16)])"

fun extend_by :: "nat \<Rightarrow> word32 list \<Rightarrow> word32 list" where
  "extend_by 0 w = w"
| "extend_by (Suc n) w = extend_by n (extend w)"

definition schedule :: "byte list \<Rightarrow> word32 list" where
  "schedule block = extend_by 48 (block_words block)"

fun sha_round :: "hash_state \<Rightarrow> word32 \<times> word32 \<Rightarrow> hash_state" where
  "sha_round (a, b, c, d, e, f, g, h) (k, w) =
     (let t1 = h + big_sigma1 e + ch e f g + k + w;
          t2 = big_sigma0 a + maj a b c
      in (t1 + t2, a, b, c, d + t1, e, f, g))"

fun add_state :: "hash_state \<Rightarrow> hash_state \<Rightarrow> hash_state" where
  "add_state (a, b, c, d, e, f, g, h) (a', b', c', d', e', f', g', h') =
     (a + a', b + b', c + c', d + d', e + e', f + f', g + g', h + h')"

definition compress :: "hash_state \<Rightarrow> byte list \<Rightarrow> hash_state" where
  "compress hs block = add_state hs (foldl sha_round hs (zip round_constants (schedule block)))"

definition sha256 :: "byte list \<Rightarrow> hash_state" where
  "sha256 m = foldl compress initial_hash (blocks (sha_pad m))"

definition hex_digit :: "nat \<Rightarrow> char" where
  "hex_digit n = ''0123456789abcdef'' ! (n mod 16)"

definition hex32 :: "word32 \<Rightarrow> string" where
  "hex32 w = map (\<lambda>i. hex_digit (unat (drop_bit (4 * (7 - i)) w))) [0..<8]"

fun hexdigest :: "hash_state \<Rightarrow> string" where
  "hexdigest (a, b, c, d, e, f, g, h) =
     hex32 a @ hex32 b @ hex32 c @ hex32 d @ hex32 e @ hex32 f @ hex32 g @ hex32 h"

text \<open>The two identity functions. They read no clock and no state.\<close>

definition make_event_id :: "pystr \<Rightarrow> pystr \<Rightarrow> error + string" where
  "make_event_id url title =
     ebind (encode (url @ title)) (\<lambda>data. Inr (take 16 (hexdigest (sha256 data))))"

definition tweet_id :: "pystr \<Rightarrow> pystr \<Rightarrow> error + string" where
  "tweet_id account text =
     ebind (encode (account @ take 80 text)) (\<lambda>data. Inr (take 16 (hexdigest (sha256 data))))"

text \<open>
  A string \<open>encode\<close> accepts, and a string of lower-case hexadecimal digits.
\<close>

definition encodable :: "pystr \<Rightarrow> bool" where
  "encodable s = list_all (\<lambda>c. c < 1114112 \<and> \<not> (55296 \<le> c \<and> c \<le> 57343)) s"

definition hex_chars :: "char set" where
  "hex_chars = set ''0123456789abcdef''"

definition hex_string :: "string \<Rightarrow> bool" where
  "hex_string s = list_all (\<lambda>c. c \<in> hex_chars) s"

section \<open>Time-windowed store (\<open>api/main.py\<close>)\<close>

text \<open>
  The Redis database: each key with the time (in seconds) at which it expires and its
  payload. A payload is the JSON text of an item; it is kept as the document that
  \<open>json.loads\<close> reads back from what \<open>json.dumps\<close> wrote, that is the item itself,
  and \<open>None\<close> stands for a text that \<open>json.loads\<close> rejects. The order of the list is
  the order in which \<open>KEYS\<close> enumerates, which is arbitrary.
\<close>

type_synonym redis = "(pystr \<times> int \<times> pydict option) list"






text \<open>
  \<open>get_all_events\<close>: the payloads of the unexpired keys that match \<open>prefix:*\<close>, without
  those that do not parse. (The prefixes in use, \<open>event\<close> and \<open>tweet\<close>, contain no glob
  character, so the pattern matches the keys that start with \<open>prefix:\<close>.)
\<close>

definition get_all_events :: "pystr \<Rightarrow> int \<Rightarrow> redis \<Rightarrow> pydict list" where
  "get_all_events key_prefix now db =
     List.map_filter (\<lambda>(key, expires, payload).
        if now < expires \<and> prefix (key_prefix @ str '':'') key then payload else None) db"

section \<open>The events query (\<open>api/main.py\<close>)\<close>

text \<open>\<open>e.get(k)\<close>, \<open>e.get(k, default)\<close> and the truth value of an object\<close>

definition dict_get :: "pydict \<Rightarrow> string \<Rightarrow> pyval" where
  "dict_get e k = (case map_of e k of None \<Rightarrow> PNone | Some v \<Rightarrow> v)"

definition dict_get_default :: "pydict \<Rightarrow> string \<Rightarrow> pyval \<Rightarrow> pyval" where
  "dict_get_default e k d = (case map_of e k of None \<Rightarrow> d | Some v \<Rightarrow> v)"

fun truthy :: "pyval \<Rightarrow> bool" where
  "truthy PNone = False"
| "truthy (PBool b) = b"
| "truthy (PInt i) = (i \<noteq> 0)"
| "truthy (PFloat x) = (x \<noteq> 0)"
| "truthy (PStr s) = (s \<noteq> [])"
| "truthy (PList vs) = (vs \<noteq> [])"

text \<open>\<open>v < n\<close> for an integer \<open>n\<close>: a number is compared, anything else is a \<open>TypeError\<close>.\<close>

fun py_less_int :: "pyval \<Rightarrow> int \<Rightarrow> error + bool" where
  "py_less_int (PInt i) n = Inr (i < n)"
| "py_less_int (PBool b) n = Inr ((if b then 1 else 0) < n)"
| "py_less_int (PFloat x) n = Inr (x < of_int n)"
| "py_less_int PNone n = Inl TypeError"
| "py_less_int (PStr s) n = Inl TypeError"
| "py_less_int (PList vs) n = Inl TypeError"

text \<open>
  \<open>topic in container\<close> for a string \<open>topic\<close>: an element of a list, a substring of a
  string, and a \<open>TypeError\<close> for a container that cannot be iterated.
\<close>

fun py_in :: "pystr \<Rightarrow> pyval \<Rightarrow> error + bool" where
  "py_in x (PList vs) = Inr (PStr x \<in> set vs)"
| "py_in x (PStr s) = Inr (str_in x s)"
| "py_in x PNone = Inl TypeError"
| "py_in x (PBool b) = Inl TypeError"
| "py_in x (PInt i) = Inl TypeError"
| "py_in x (PFloat r) = Inl TypeError"

definition py_or :: "pyval \<Rightarrow> pyval \<Rightarrow> pyval" where
  "py_or a b = (if truthy a then a else b)"

text \<open>\<open>s.replace("Z", "+00:00")\<close>\<close>

definition replace_Z :: "pystr \<Rightarrow> pystr" where
  "replace_Z s = concat (map (\<lambda>c. if c = 90 then str ''+00:00'' else [c]) s)"

text \<open>
  The \<open>try\<close> block of the loop: the instant of \<open>published_at\<close>, or \<open>None\<close> when an
  exception is caught (the key is missing, the value has no \<open>replace\<close> method because it
  is not a string, or \<open>fromisoformat\<close> rejects it).
\<close>

definition parse_published :: "runtime \<Rightarrow> pydict \<Rightarrow> int option" where
  "parse_published R e =
     (case map_of e ''published_at'' of
        Some (PStr s) \<Rightarrow>
          (case fromisoformat R (replace_Z s) of
             None \<Rightarrow> None
           | Some (Naive t) \<Rightarrow> Some t
           | Some (Aware t) \<Rightarrow> Some t)
      | _ \<Rightarrow> None)"

record query =
  category :: "pystr option"
  topic :: "pystr option"
  min_severity :: int
  hours :: int
  breaking_only :: bool
  source_type :: "pystr option"

text \<open>
  The body of the loop over the stored events: \<open>Inr False\<close> is a \<open>continue\<close>,
  \<open>Inr True\<close> reaches \<open>filtered.append(e)\<close>, \<open>Inl\<close> is an exception that nothing catches.
\<close>

definition keep_event :: "runtime \<Rightarrow> query \<Rightarrow> int \<Rightarrow> pydict \<Rightarrow> error + bool" where
  "keep_event R q cutoff e =
     (if \<not> truthy (dict_get e ''lat'') \<or> \<not> truthy (dict_get e ''lon'') then Inr False
      else case parse_published R e of
        None \<Rightarrow> Inr False
      | Some pub \<Rightarrow>
          if pub < cutoff then Inr False
          else
            ebind (py_less_int (dict_get_default e ''severity'' (PInt 1)) (min_severity q))
            (\<lambda>below.
              if below then Inr False
              else if (case category q of
                         None \<Rightarrow> False
                       | Some c \<Rightarrow> c \<noteq> [] \<and> dict_get e ''category'' \<noteq> PStr c)
              then Inr False
              else
                ebind (case topic q of
                         None \<Rightarrow> Inr False
                       | Some t \<Rightarrow>
                           if t = [] then Inr False
                           else ebind (py_in t (py_or (dict_get e ''topics'') (PList [])))
                                  (\<lambda>found. Inr (\<not> found)))
                (\<lambda>off_topic.
                  if off_topic then Inr False
                  else if breaking_only q \<and> \<not> truthy (dict_get e ''is_breaking'')
                  then Inr False
                  else if (case source_type q of
                             None \<Rightarrow> False
                           | Some st \<Rightarrow> st \<noteq> [] \<and> dict_get e ''source_type'' \<noteq> PStr st)
                  then Inr False
                  else Inr True)))"

fun events_loop :: "runtime \<Rightarrow> query \<Rightarrow> int \<Rightarrow> pydict list \<Rightarrow> error + pydict list" where
  "events_loop R q cutoff [] = Inr []"
| "events_loop R q cutoff (e # events) =
     ebind (keep_event R q cutoff e) (\<lambda>keep.
     ebind (events_loop R q cutoff events) (\<lambda>filtered.
       Inr (if keep then e # filtered else filtered)))"

text \<open>
  \<open>filtered.sort(key=lambda x: x.get("published_at", ""), reverse=True)\<close>: a stable sort
  in descending order, strings compared code point by code point. Keys that are not
  all strings are reported as \<open>TypeError\<close>; the events the loop keeps have string keys.
\<close>

definition published_key :: "pydict \<Rightarrow> pystr option" where
  "published_key e =
     (case dict_get_default e ''published_at'' (PStr []) of PStr s \<Rightarrow> Some s | _ \<Rightarrow> None)"

definition sort_events :: "pydict list \<Rightarrow> error + pydict list" where
  "sort_events es =
     (if list_all (\<lambda>e. published_key e \<noteq> None) es
      then Inr (rev (sort_key (\<lambda>e. case published_key e of Some s \<Rightarrow> s | None \<Rightarrow> [])
                      (rev es)))
      else Inl TypeError)"

text \<open>
  \<open>get_events\<close>; \<open>now\<close> is \<open>datetime.now(timezone.utc)\<close> in microseconds, \<open>redis_now\<close>
  the clock of the store in seconds. The result is the pair of \<open>count\<close> and \<open>events\<close>.
\<close>

definition get_events ::
  "runtime \<Rightarrow> query \<Rightarrow> int \<Rightarrow> int \<Rightarrow> redis \<Rightarrow> error + (nat \<times> pydict list)" where
  "get_events R q now redis_now db =
     (let events = get_all_events (str ''event'') redis_now db;
          cutoff = now - hours q * 3600000000
      in ebind (events_loop R q cutoff events) (\<lambda>filtered.
         ebind (sort_events filtered) (\<lambda>sorted.
           Inr (length sorted, take 500 sorted))))"

text \<open>The predicates of the query in the words of the specification.\<close>

definition published_since :: "runtime \<Rightarrow> int \<Rightarrow> pydict \<Rightarrow> bool" where
  "published_since R cutoff e =
     (\<exists>s d. map_of e ''published_at'' = Some (PStr s) \<and> fromisoformat R (replace_Z s) = Some d \<and>
            cutoff \<le> (case d of Naive t \<Rightarrow> t | Aware t \<Rightarrow> t))"

definition severity_at_least :: "int \<Rightarrow> pydict \<Rightarrow> bool" where
  "severity_at_least n e =
     (case dict_get_default e ''severity'' (PInt 1) of
        PInt i \<Rightarrow> n \<le> i
      | PBool b \<Rightarrow> n \<le> (if b then 1 else 0)
      | PFloat x \<Rightarrow> of_int n \<le> x
      | _ \<Rightarrow> False)"

definition topic_listed :: "pystr \<Rightarrow> pydict \<Rightarrow> bool" where
  "topic_listed t e = (\<exists>vs. dict_get e ''topics'' = PList vs \<and> PStr t \<in> set vs)"

definition topic_in_string :: "pystr \<Rightarrow> pydict \<Rightarrow> bool" where
  "topic_in_string t e = (\<exists>s. dict_get e ''topics'' = PStr s \<and> str_in t s)"

text \<open>
  The types the data model gives the two fields whose type matters to the query: a
  severity, when present, is an integer, and the topics, when present, are a list.
\<close>

definition normalized_item :: "pydict \<Rightarrow> bool" where
  "normalized_item e =
     ((case map_of e ''severity'' of None \<Rightarrow> True | Some (PInt i) \<Rightarrow> True | Some _ \<Rightarrow> False) \<and>
      (case map_of e ''topics'' of None \<Rightarrow> True | Some (PList vs) \<Rightarrow> True | Some _ \<Rightarrow> False))"

text \<open>
  A store and a query for examples: three events and a tweet that differ in one field
  each, and a payload that does not parse. The runtime reads the two dates in use.
\<close>

definition clock_runtime :: runtime where
  "clock_runtime = ascii_runtime \<lparr> fromisoformat :=
     (\<lambda>s. if s = str ''2024-05-01T12:00:00+00:00'' then Some (Aware 1714564800000000)
          else if s = str ''2024-05-01T02:00:00'' then Some (Naive 1714528800000000)
          else None) \<rparr>"

definition tokyo_item :: pydict where
  "tokyo_item =
     [(''id'', PStr (str ''00a1'')), (''title'', PStr (str ''Strike'')),
      (''source_type'', PStr (str ''rss'')), (''category'', PStr (str ''conflict'')),
      (''topics'', PList [PStr (str ''protests''), PStr (str ''natural_disasters'')]),
      (''severity'', PInt 4), (''is_breaking'', PBool True),
      (''published_at'', PStr (str ''2024-05-01T12:00:00Z'')),
      (''lat'', PFloat (3568 / 100)), (''lon'', PFloat (13969 / 100))]"

definition equator_item :: pydict where
  "equator_item = AList.update ''id'' (PStr (str ''00a2'')) (AList.update ''lat'' (PFloat 0) tokyo_item)"

definition stale_item :: pydict where
  "stale_item = AList.update ''id'' (PStr (str ''00a3''))
     (AList.update ''published_at'' (PStr (str ''2024-05-01T02:00:00'')) tokyo_item)"

definition example_db :: redis where
  "example_db =
     [(str ''event:00a2'', 1714600000, Some equator_item),
      (str ''event:00a1'', 1714600000, Some tokyo_item),
      (str ''tweet:00a1'', 1714600000, Some tokyo_item),
      (str ''event:00a3'', 1714600000, Some stale_item),
      (str ''event:00a4'', 1714600000, None)]"

definition example_query :: query where
  "example_query = \<lparr> category = Some (str ''conflict''), topic = Some (str ''protests''),
     min_severity = 4, hours = 6, breaking_only = True, source_type = Some (str ''rss'') \<rparr>"

section \<open>Social adapter (\<open>scrapers/twitter_scraper.py\<close>)\<close>
















section \<open>RSS adapter (\<open>scrapers/news_scraper.py\<close>)\<close>






chapter \<open>Properties\<close>

section \<open>Strings\<close>



section \<open>Classification\<close>

















lemma lower_earthquake:
  "lower R earthquake_text = str ''earthquake of magnitude 7.1 strikes near 35.68,139.69''"
  by (simp add: earthquake_text_def lower_def str_def)

lemma category_earthquake: "classify_category R earthquake_text = Inr ''conflict''"
  unfolding classify_category_def Let_def lower_earthquake
  by (simp add: getitem_def CATEGORY_KEYWORDS_def str_def)

lemma severity_earthquake: "classify_severity R earthquake_text = Inr 1"
  unfolding classify_severity_def lower_earthquake
  by (simp add: getitem_def SEVERITY_KEYWORDS_def str_def)

lemma topics_earthquake: "classify_topics R earthquake_text = [''protests'', ''natural_disasters'']"
  unfolding classify_topics_def lower_earthquake
  by (simp add: TOPIC_KEYWORDS_def str_def)






section \<open>Coordinates\<close>

lemma round_bounds:
  assumes "rounds_like_binary64 fl" "of_int a \<le> x" "x \<le> of_int b" "\<bar>a\<bar> \<le> 1000" "\<bar>b\<bar> \<le> 1000"
  shows "of_int a \<le> fl x \<and> fl x \<le> of_int b"
proof -
  have m: "\<And>x y. x \<le> y \<Longrightarrow> fl x \<le> fl y"
    and e: "\<And>k::int. \<bar>k\<bar> \<le> 2 ^ 53 \<Longrightarrow> fl (of_int k) = of_int k"
    using assms(1) by (auto simp: rounds_like_binary64_def)
  have "fl (of_int a) = of_int a" "fl (of_int b) = of_int b"
    using assms(4,5) by (auto intro!: e)
  with m[OF assms(2)] m[OF assms(3)] show ?thesis by simp
qed

lemma rounds_like_binary64_exact: "rounds_like_binary64 (\<lambda>x. x)"
  by (simp add: rounds_like_binary64_def)

lemma round64_ascii: "round64 ascii_runtime = (\<lambda>x. x)"
  by (simp add: ascii_runtime_def)

text \<open>The decimal extractor checks the range of what it returns.\<close>

lemma extract_decimal_coords_in_range:
  assumes "extract_decimal_coords R text = Inr (Some (lat, lon))"
  shows "- 90 \<le> lat \<and> lat \<le> 90 \<and> - 180 \<le> lon \<and> lon \<le> 180"
  using assms
  by (auto simp: extract_decimal_coords_def ebind_def split: option.splits sum.splits if_splits)

lemma search_dms_text:
  "rx_search (DMS_COORD R) dms_text =
     Some [str ''100'', str ''0'', str ''N'', str ''200'', str ''0'', str ''E'']"
  by (simp add: dms_text_def DMS_COORD_def lit_def str_def is_digit_def digit_value_def
      is_space_def)

lemma search_decimal_dms_text: "rx_search (DECIMAL_COORD R) dms_text = None"
  by (simp add: dms_text_def DECIMAL_COORD_def DECIMAL_NUMBER_def lit_def str_def is_digit_def
      digit_value_def is_space_def)

lemma coords_any_hints:
  "raw_coords R text = Inr (Some (lat, lon)) \<Longrightarrow>
   resolve_geo R S text hints w = (Inr (coords_geo lat lon), w)"
  by (simp add: resolve_geo_def)

text \<open>
  Claim C1, at the text \<open>100D0PN 200D0PE\<close> (\<open>D\<close> the degree sign, \<open>P\<close> the prime):
  \<open>extract_dms_coords\<close> returns the pair \<open>(100, 200)\<close>, which is outside
  \<open>-90 \<le> lat \<le> 90\<close>, \<open>-180 \<le> lon \<le> 180\<close>, and \<open>resolve_geo\<close> hands it on as the
  location of the item. The decimal extractor checks the range
  (\<open>extract_decimal_coords_in_range\<close>); the DMS extractor does not.
\<close>

theorem extract_dms_coords_unchecked:
  assumes "rounds_like_binary64 (round64 R)"
  shows "extract_dms_coords R dms_text = Inr (Some (100, 200)) \<and>
         resolve_geo R S dms_text hints w = (Inr (coords_geo 100 200), w) \<and>
         \<not> (- 90 \<le> (100::rat) \<and> (100::rat) \<le> 90 \<and> - 180 \<le> (200::rat) \<and> (200::rat) \<le> 180)"
proof -
  have e: "\<And>k::int. \<bar>k\<bar> \<le> 2 ^ 53 \<Longrightarrow> round64 R (of_int k) = of_int k"
    using assms by (auto simp: rounds_like_binary64_def)
  have "round64 R 0 = 0" "round64 R 100 = 100" "round64 R 200 = 200"
    using e[of 0] e[of 100] e[of 200] by simp_all
  then have dms: "extract_dms_coords R dms_text = Inr (Some (100, 200))"
    by (simp add: extract_dms_coords_def search_dms_text group_def ebind_def py_int_def
        str_def digit_value_def Let_def)
  have "extract_decimal_coords R dms_text = Inr None"
    by (simp add: extract_decimal_coords_def search_decimal_dms_text)
  then have "raw_coords R dms_text = Inr (Some (100, 200))"
    using dms by (simp add: raw_coords_def)
  then show ?thesis using dms by (simp add: coords_any_hints)
qed

theorem extract_dms_coords_unchecked_witness:
  "rounds_like_binary64 (round64 ascii_runtime) \<and>
   extract_dms_coords ascii_runtime dms_text = Inr (Some (100, 200)) \<and>
   resolve_geo ascii_runtime (recording_services [] paris_table) dms_text None [] =
     (Inr (coords_geo 100 200), [])"
  using extract_dms_coords_unchecked [of ascii_runtime "recording_services [] paris_table" None "[]"]
  by (simp add: round64_ascii rounds_like_binary64_exact)

section \<open>The earthquake example\<close>

lemma search_earthquake:
  "rx_search (DECIMAL_COORD R) earthquake_text = Some [str ''35.68'', str ''139.69'']"
  by (simp add: earthquake_text_def DECIMAL_COORD_def DECIMAL_NUMBER_def lit_def str_def
      is_digit_def digit_value_def is_space_def)

lemma float_earthquake:
  "py_float R (str ''35.68'') = Inr (round64 R (3568 / 100))"
  "py_float R (str ''139.69'') = Inr (round64 R (13969 / 100))"
  by (simp_all add: py_float_def str_def digit_value_def Let_def)

lemma decimal_earthquake:
  assumes "rounds_like_binary64 (round64 R)"
  shows "extract_decimal_coords R earthquake_text =
           Inr (Some (round64 R (3568 / 100), round64 R (13969 / 100)))"
proof -
  have "- 90 \<le> round64 R (3568 / 100) \<and> round64 R (3568 / 100) \<le> 90"
    using round_bounds[OF assms, of "- 90" "3568 / 100" 90] by simp
  moreover have "- 180 \<le> round64 R (13969 / 100) \<and> round64 R (13969 / 100) \<le> 180"
    using round_bounds[OF assms, of "- 180" "13969 / 100" 180] by simp
  ultimately show ?thesis
    by (simp add: extract_decimal_coords_def search_earthquake group_def ebind_def
        float_earthquake)
qed

text \<open>
  Claim C2 as stated fails: for the example text the category is not \<open>disaster\<close> and the
  severity is not 3 or more.
\<close>

theorem earthquake_example_counterexample:
  "\<not> (raw_coords ascii_runtime earthquake_text = Inr (Some (3568 / 100, 13969 / 100)) \<and>
      classify_category ascii_runtime earthquake_text = Inr ''disaster'' \<and>
      ''natural_disasters'' \<in> set (classify_topics ascii_runtime earthquake_text) \<and>
      \<not> isl (classify_severity ascii_runtime earthquake_text) \<and>
      3 \<le> projr (classify_severity ascii_runtime earthquake_text))"
  by (simp add: category_earthquake)

text \<open>
  Claim C2, amended. For the text
  \<open>Earthquake of magnitude 7.1 strikes near 35.68,139.69\<close> the coordinate stage of
  \<open>resolve_geo\<close> returns the floats \<open>35.68\<close> and \<open>139.69\<close> with empty names and calls
  neither collaborator; \<open>classify_category\<close> returns \<open>conflict\<close> (the conflict keyword
  \<open>strike\<close> occurs in \<open>strikes\<close>, and conflict is checked before disaster);
  \<open>classify_topics\<close> returns \<open>protests\<close> and \<open>natural_disasters\<close>; and
  \<open>classify_severity\<close> returns 1, since no severity keyword occurs.
\<close>

theorem earthquake_example:
  assumes "rounds_like_binary64 (round64 R)"
  shows "resolve_geo R S earthquake_text hints w =
           (Inr [(''lat'', PFloat (round64 R (3568 / 100))),
                 (''lon'', PFloat (round64 R (13969 / 100))),
                 (''location_name'', PStr []), (''country_code'', PStr [])], w) \<and>
         classify_category R earthquake_text = Inr ''conflict'' \<and>
         classify_topics R earthquake_text = [''protests'', ''natural_disasters''] \<and>
         ''natural_disasters'' \<in> set (classify_topics R earthquake_text) \<and>
         classify_severity R earthquake_text = Inr 1"
proof -
  have "raw_coords R earthquake_text =
          Inr (Some (round64 R (3568 / 100), round64 R (13969 / 100)))"
    by (simp add: raw_coords_def decimal_earthquake [OF assms])
  then show ?thesis
    by (simp add: coords_any_hints coords_geo_def category_earthquake topics_earthquake
        severity_earthquake)
qed

theorem earthquake_example_witness:
  "rounds_like_binary64 (round64 ascii_runtime) \<and>
   resolve_geo ascii_runtime (recording_services [] paris_table) earthquake_text None [] =
     (Inr [(''lat'', PFloat (3568 / 100)), (''lon'', PFloat (13969 / 100)),
           (''location_name'', PStr []), (''country_code'', PStr [])], []) \<and>
   classify_category ascii_runtime earthquake_text = Inr ''conflict'' \<and>
   classify_topics ascii_runtime earthquake_text = [''protests'', ''natural_disasters''] \<and>
   classify_severity ascii_runtime earthquake_text = Inr 1"
  using earthquake_example [of ascii_runtime "recording_services [] paris_table" None "[]"]
  by (simp add: round64_ascii rounds_like_binary64_exact)

section \<open>Fallback\<close>

lemma geocode_loop_first_success:
  "geocode_loop R S locations w =
     (case first_success (geocode_all S locations w) of
        Some (loc, result, w') \<Rightarrow> (place_geo R loc result, w')
      | None \<Rightarrow> ([], state_after w (geocode_all S locations w)))"
  by (induction locations arbitrary: w) (auto split: prod.splits option.splits)

lemma hint_names_cases:
  "(case hints of Some (h # hs) \<Rightarrow> (h # hs) @ names | _ \<Rightarrow> names) = hint_names hints @ names"
  by (simp add: hint_names_def split: option.splits list.splits)

text \<open>
  Claim C7. \<open>resolve_geo\<close> tries the decimal pattern, then the DMS pattern. When one of
  them yields a pair, it returns the pair with empty \<open>location_name\<close> and
  \<open>country_code\<close> and leaves the outside world as it was: neither the recogniser nor the
  geocoder is called, whatever they are. When neither yields a pair, the candidates are
  the hint names followed by the names recognised in the text; the result is built from
  the first candidate, in that order, whose geocoding succeeds (its coordinates, the
  candidate as \<open>location_name\<close> and the country code of its address), each candidate being
  geocoded in the state left by the previous one, and the state returned is the one right
  after that successful call; when no candidate succeeds the result is the empty
  dictionary, not an error.
\<close>

theorem resolve_geo_fallback:
  "(extract_decimal_coords R text = Inr (Some (lat, lon)) \<longrightarrow>
      raw_coords R text = Inr (Some (lat, lon))) \<and>
   (extract_decimal_coords R text = Inr None \<longrightarrow>
      raw_coords R text = extract_dms_coords R text) \<and>
   (raw_coords R text = Inr (Some (lat, lon)) \<longrightarrow>
      resolve_geo R S text hints w =
        (Inr [(''lat'', PFloat lat), (''lon'', PFloat lon),
              (''location_name'', PStr []), (''country_code'', PStr [])], w)) \<and>
   (raw_coords R text = Inr None \<longrightarrow>
      (case extract_locations_spacy S text w of
         (names, w1) \<Rightarrow>
           resolve_geo R S text hints w =
             (case first_success (geocode_all S (hint_names hints @ names) w1) of
                Some (loc, (place_lat, place_lon, display), w') \<Rightarrow>
                  (Inr [(''lat'', PFloat place_lat), (''lon'', PFloat place_lon),
                        (''location_name'', PStr loc),
                        (''country_code'', PStr (country_code R display))], w')
              | None \<Rightarrow>
                  (Inr [], state_after w1 (geocode_all S (hint_names hints @ names) w1)))))"
  by (auto simp: raw_coords_def resolve_geo_def hint_names_cases geocode_loop_first_success
      coords_geo_def place_geo_def split: prod.splits option.splits)


lemma no_coords_flood: "raw_coords R flood_text = Inr None"
  by (simp add: raw_coords_def extract_decimal_coords_def extract_dms_coords_def flood_text_def
     DECIMAL_COORD_def DECIMAL_NUMBER_def DMS_COORD_def lit_def str_def is_digit_def digit_value_def is_space_def)

lemma country_fr: "country_code R (str ''Paris, Ile-de-France, France'') = str ''FR''"
  by (simp add: country_code_def str_def strip_def upper_def is_space_def Let_def)

text \<open>
  With a recording geocoder that knows Paris only: the example with coordinates
  geocodes nothing; with hints \<open>Xyz\<close>, \<open>Paris\<close> and the recognised name \<open>Lyon\<close>, the
  names geocoded are \<open>Xyz\<close> and \<open>Paris\<close>, in this order, and the result is Paris;
  without hints \<open>Lyon\<close> is tried, fails, and the result is empty.
\<close>

theorem resolve_geo_fallback_witness:
  "raw_coords ascii_runtime earthquake_text = Inr (Some (3568 / 100, 13969 / 100)) \<and>
   resolve_geo ascii_runtime (recording_services [str ''Lyon''] paris_table) earthquake_text
       (Some [str ''Xyz'', str ''Paris'']) [] =
     (Inr [(''lat'', PFloat (3568 / 100)), (''lon'', PFloat (13969 / 100)),
           (''location_name'', PStr []), (''country_code'', PStr [])], []) \<and>
   raw_coords ascii_runtime flood_text = Inr None \<and>
   resolve_geo ascii_runtime (recording_services [str ''Lyon''] paris_table) flood_text
       (Some [str ''Xyz'', str ''Paris'']) [] =
     (Inr [(''lat'', PFloat (4885 / 100)), (''lon'', PFloat (235 / 100)),
           (''location_name'', PStr (str ''Paris'')), (''country_code'', PStr (str ''FR''))],
      [str ''Xyz'', str ''Paris'']) \<and>
   resolve_geo ascii_runtime (recording_services [str ''Lyon''] paris_table) flood_text
       None [] = (Inr [], [str ''Lyon''])"
proof -
  have dec: "extract_decimal_coords ascii_runtime earthquake_text = Inr (Some (3568 / 100, 13969 / 100))"
    using decimal_earthquake [of ascii_runtime]
    by (simp add: round64_ascii rounds_like_binary64_exact)
  note inst = resolve_geo_fallback [of ascii_runtime earthquake_text "3568 / 100" "13969 / 100"
      "recording_services [str ''Lyon''] paris_table" "Some [str ''Xyz'', str ''Paris'']" "[]"]
  have 1: "raw_coords ascii_runtime earthquake_text = Inr (Some (3568 / 100, 13969 / 100))"
    using inst [THEN conjunct1, rule_format, OF dec] .
  note 2 = inst [THEN conjunct2, THEN conjunct2, THEN conjunct1, rule_format, OF 1]
  note 3 = no_coords_flood [of ascii_runtime]
  have 4: "resolve_geo ascii_runtime (recording_services [str ''Lyon''] paris_table) flood_text
       (Some [str ''Xyz'', str ''Paris'']) [] =
     (Inr [(''lat'', PFloat (4885 / 100)), (''lon'', PFloat (235 / 100)),
           (''location_name'', PStr (str ''Paris'')), (''country_code'', PStr (str ''FR''))],
      [str ''Xyz'', str ''Paris''])"
    using resolve_geo_fallback [of ascii_runtime flood_text 0 0
      "recording_services [str ''Lyon''] paris_table" "Some [str ''Xyz'', str ''Paris'']" "[]",
      THEN conjunct2, THEN conjunct2, THEN conjunct2, rule_format, OF 3]
    by (simp add: extract_locations_spacy_def recording_services_def hint_names_def
        paris_table_def country_fr [unfolded str_def, simplified] str_def)
  have 5: "resolve_geo ascii_runtime (recording_services [str ''Lyon''] paris_table) flood_text
       None [] = (Inr [], [str ''Lyon''])"
    using resolve_geo_fallback [of ascii_runtime flood_text 0 0
      "recording_services [str ''Lyon''] paris_table" None "[]",
      THEN conjunct2, THEN conjunct2, THEN conjunct2, rule_format, OF 3]
    by (simp add: extract_locations_spacy_def recording_services_def hint_names_def
        paris_table_def str_def)
  from 1 2 3 4 5 show ?thesis by simp
qed

section \<open>The events query\<close>

lemma keep_event_True:
  assumes "keep_event R q cutoff e = Inr True"
  shows "truthy (dict_get e ''lat'')" "truthy (dict_get e ''lon'')"
    "published_since R cutoff e"
    "severity_at_least (min_severity q) e"
    "category q = Some c \<Longrightarrow> c \<noteq> [] \<Longrightarrow> dict_get e ''category'' = PStr c"
    "topic q = Some t \<Longrightarrow> t \<noteq> [] \<Longrightarrow> topic_listed t e \<or> topic_in_string t e"
    "breaking_only q \<Longrightarrow> truthy (dict_get e ''is_breaking'')"
    "source_type q = Some st \<Longrightarrow> st \<noteq> [] \<Longrightarrow> dict_get e ''source_type'' = PStr st"
proof -
  from assms show "truthy (dict_get e ''lat'')" "truthy (dict_get e ''lon'')"
    by (auto simp: keep_event_def split: if_splits)
  from assms obtain pub where pub: "parse_published R e = Some pub" "\<not> pub < cutoff"
    by (auto simp: keep_event_def split: if_splits option.splits)
  then show "published_since R cutoff e"
    by (auto simp: parse_published_def published_since_def
        split: option.splits pyval.splits datetime.splits)
  from assms pub have sev: "py_less_int (dict_get_default e ''severity'' (PInt 1)) (min_severity q) = Inr False"
    by (auto simp: keep_event_def ebind_def split: if_splits option.splits sum.splits)
  then show "severity_at_least (min_severity q) e"
    by (cases "dict_get_default e ''severity'' (PInt 1)") (auto simp: severity_at_least_def)
  from assms pub sev have rest:
    "\<not> (case category q of None \<Rightarrow> False | Some c \<Rightarrow> c \<noteq> [] \<and> dict_get e ''category'' \<noteq> PStr c)"
    "(case topic q of None \<Rightarrow> Inr False
       | Some t \<Rightarrow> if t = [] then Inr False
           else ebind (py_in t (py_or (dict_get e ''topics'') (PList []))) (\<lambda>found. Inr (\<not> found)))
       = Inr False"
    "\<not> (breaking_only q \<and> \<not> truthy (dict_get e ''is_breaking''))"
    "\<not> (case source_type q of None \<Rightarrow> False | Some st \<Rightarrow> st \<noteq> [] \<and> dict_get e ''source_type'' \<noteq> PStr st)"
    by (auto simp: keep_event_def ebind_def split: if_splits sum.splits)
  from rest(1) show "category q = Some c \<Longrightarrow> c \<noteq> [] \<Longrightarrow> dict_get e ''category'' = PStr c"
    by simp
  from rest(3) show "breaking_only q \<Longrightarrow> truthy (dict_get e ''is_breaking'')" by simp
  from rest(4) show "source_type q = Some st \<Longrightarrow> st \<noteq> [] \<Longrightarrow> dict_get e ''source_type'' = PStr st"
    by simp
  show "topic_listed t e \<or> topic_in_string t e" if "topic q = Some t" "t \<noteq> []"
  proof -
    from rest(2) that have "py_in t (py_or (dict_get e ''topics'') (PList [])) = Inr True"
      by (auto simp: ebind_def split: sum.splits)
    then show ?thesis
      by (cases "dict_get e ''topics''")
         (auto simp: py_or_def topic_listed_def topic_in_string_def split: if_splits)
  qed
qed

lemma events_loop_filter:
  "events_loop R q cutoff es = Inr filtered \<Longrightarrow>
   filtered = filter (\<lambda>e. keep_event R q cutoff e = Inr True) es"
  by (induction es arbitrary: filtered) (auto simp: ebind_def split: sum.splits if_splits)

lemma sort_events_set: "sort_events es = Inr ordered \<Longrightarrow> set ordered = set es"
  by (auto simp: sort_events_def split: if_splits)

lemma get_events_subset:
  assumes "get_events R q now redis_now db = Inr (count, events)" "e \<in> set events"
  shows "e \<in> set (get_all_events (str ''event'') redis_now db)"
    and "keep_event R q (now - hours q * 3600000000) e = Inr True"
proof -
  from assms(1) obtain filtered ordered where
    f: "events_loop R q (now - hours q * 3600000000) (get_all_events (str ''event'') redis_now db) = Inr filtered"
    and s: "sort_events filtered = Inr ordered" and ev: "events = take 500 ordered"
    by (auto simp: get_events_def Let_def ebind_def split: sum.splits)
  from assms(2) ev have "e \<in> set ordered" by (auto dest: in_set_takeD)
  with sort_events_set[OF s] have "e \<in> set filtered" by simp
  with events_loop_filter[OF f]
  show "e \<in> set (get_all_events (str ''event'') redis_now db)"
    and "keep_event R q (now - hours q * 3600000000) e = Inr True" by auto
qed

lemma keep_event_total:
  assumes "normalized_item e"
  shows "\<exists>b. keep_event R q cutoff e = Inr b"
proof -
  obtain b1 where sev:
    "py_less_int (dict_get_default e ''severity'' (PInt 1)) (min_severity q) = Inr b1"
    using assms
    by (auto simp: normalized_item_def dict_get_default_def split: option.splits pyval.splits)
  have top: "\<exists>b. py_in t (py_or (dict_get e ''topics'') (PList [])) = Inr b" for t
    using assms
    by (auto simp: normalized_item_def dict_get_def py_or_def split: option.splits pyval.splits)
  have "\<exists>b2. (case topic q of None \<Rightarrow> Inr False
      | Some t \<Rightarrow> if t = [] then Inr False
          else ebind (py_in t (py_or (dict_get e ''topics'') (PList []))) (\<lambda>found. Inr (\<not> found)))
     = Inr b2"
  proof (cases "topic q")
    case None
    then show ?thesis by auto
  next
    case (Some t)
    obtain b where "py_in t (py_or (dict_get e ''topics'') (PList [])) = Inr b"
      using top by blast
    with Some show ?thesis by (auto simp: ebind_def)
  qed
  then obtain b2 where tp:
    "(case topic q of None \<Rightarrow> Inr False
      | Some t \<Rightarrow> if t = [] then Inr False
          else ebind (py_in t (py_or (dict_get e ''topics'') (PList []))) (\<lambda>found. Inr (\<not> found)))
     = Inr b2" ..
  show ?thesis
  proof (cases "parse_published R e")
    case None
    then show ?thesis by (auto simp: keep_event_def)
  next
    case (Some pub)
    then show ?thesis by (auto simp: keep_event_def sev tp ebind_def)
  qed
qed

lemma events_loop_total:
  assumes "\<forall>e \<in> set es. normalized_item e"
  shows "\<exists>filtered. events_loop R q cutoff es = Inr filtered"
  using assms
proof (induction es)
  case Nil
  then show ?case by simp
next
  case (Cons e es)
  then obtain filtered where "events_loop R q cutoff es = Inr filtered" by auto
  moreover obtain b where "keep_event R q cutoff e = Inr b"
    using keep_event_total[where e=e and R=R and q=q and cutoff=cutoff] Cons.prems by auto
  ultimately show ?case by (simp add: ebind_def)
qed

lemma kept_has_key:
  assumes "keep_event R q cutoff e = Inr True"
  shows "published_key e \<noteq> None"
  using keep_event_True(3)[OF assms]
  by (auto simp: published_since_def published_key_def dict_get_default_def)

lemma sort_events_total:
  assumes "events_loop R q cutoff es = Inr filtered"
  shows "\<exists>ordered. sort_events filtered = Inr ordered"
  using events_loop_filter[OF assms] kept_has_key
  by (auto simp: sort_events_def list_all_iff)

text \<open>
  Claim C4. Every item the events query returns is a stored, unexpired event that
  satisfies each predicate the request supplies: its \<open>published_at\<close> is a string that
  parses to an instant not before the horizon \<open>now - hours\<close>; its severity (1 when the
  field is missing) is at least \<open>min_severity\<close>; its category is the requested one, its
  topics contain the requested one, and its source type is the requested one, whenever
  the request names one (an empty string names none); and \<open>is_breaking\<close> holds when
  \<open>breaking_only\<close> is set. For an item whose \<open>topics\<close> field is a list, as the data model
  has it, containment is membership in the list. When every stored event has the field
  types of the data model, the query returns a result, it raises no exception.
\<close>

theorem get_events_filter:
  "(get_events R q now redis_now db = Inr (count, events) \<and> e \<in> set events \<longrightarrow>
      e \<in> set (get_all_events (str ''event'') redis_now db) \<and>
      published_since R (now - hours q * 3600000000) e \<and>
      severity_at_least (min_severity q) e \<and>
      (\<forall>c. category q = Some c \<and> c \<noteq> [] \<longrightarrow> dict_get e ''category'' = PStr c) \<and>
      (\<forall>t. topic q = Some t \<and> t \<noteq> [] \<longrightarrow> topic_listed t e \<or> topic_in_string t e) \<and>
      (normalized_item e \<longrightarrow> (\<forall>t. topic q = Some t \<and> t \<noteq> [] \<longrightarrow> topic_listed t e)) \<and>
      (breaking_only q \<longrightarrow> truthy (dict_get e ''is_breaking'')) \<and>
      (\<forall>st. source_type q = Some st \<and> st \<noteq> [] \<longrightarrow> dict_get e ''source_type'' = PStr st)) \<and>
   ((\<forall>e \<in> set (get_all_events (str ''event'') redis_now db). normalized_item e) \<longrightarrow>
      (\<exists>count events. get_events R q now redis_now db = Inr (count, events)))"
proof (intro conjI impI)
  assume a: "get_events R q now redis_now db = Inr (count, events) \<and> e \<in> set events"
  note k = get_events_subset(2)[OF a[THEN conjunct1] a[THEN conjunct2]]
  show "e \<in> set (get_all_events (str ''event'') redis_now db)"
    using get_events_subset(1) a by blast
  show "published_since R (now - hours q * 3600000000) e" by (rule keep_event_True(3)[OF k])
  show "severity_at_least (min_severity q) e" by (rule keep_event_True(4)[OF k])
  show "\<forall>c. category q = Some c \<and> c \<noteq> [] \<longrightarrow> dict_get e ''category'' = PStr c"
    using keep_event_True(5)[OF k] by blast
  show tp: "\<forall>t. topic q = Some t \<and> t \<noteq> [] \<longrightarrow> topic_listed t e \<or> topic_in_string t e"
    using keep_event_True(6)[OF k] by blast
  show "\<forall>t. topic q = Some t \<and> t \<noteq> [] \<longrightarrow> topic_listed t e" if "normalized_item e"
  proof -
    have "\<not> topic_in_string t e" for t
      using that by (auto simp: normalized_item_def topic_in_string_def dict_get_def
          split: option.splits pyval.splits)
    with tp show ?thesis by blast
  qed
  show "truthy (dict_get e ''is_breaking'')" if "breaking_only q"
    using keep_event_True(7)[OF k] that by blast
  show "\<forall>st. source_type q = Some st \<and> st \<noteq> [] \<longrightarrow> dict_get e ''source_type'' = PStr st"
    using keep_event_True(8)[OF k] by blast
next
  assume "\<forall>e \<in> set (get_all_events (str ''event'') redis_now db). normalized_item e"
  from events_loop_total[OF this] obtain filtered where
    f: "events_loop R q (now - hours q * 3600000000) (get_all_events (str ''event'') redis_now db) = Inr filtered"
    by blast
  from sort_events_total[OF f] obtain ordered where "sort_events filtered = Inr ordered" by blast
  with f show "\<exists>count events. get_events R q now redis_now db = Inr (count, events)"
    by (simp add: get_events_def Let_def ebind_def)
qed


lemma example_stored:
  "get_all_events (str ''event'') 1714566000 example_db = [equator_item, tokyo_item, stale_item]"
  by (simp add: get_all_events_def example_db_def List.map_filter_def str_def)

lemma replace_Z_example:
  "replace_Z (str ''2024-05-01T12:00:00Z'') = str ''2024-05-01T12:00:00+00:00''"
  "replace_Z (str ''2024-05-01T02:00:00'') = str ''2024-05-01T02:00:00''"
  by (simp_all add: replace_Z_def str_def)

lemma fromisoformat_example:
  "fromisoformat clock_runtime (str ''2024-05-01T12:00:00+00:00'') = Some (Aware 1714564800000000)"
  "fromisoformat clock_runtime (str ''2024-05-01T02:00:00'') = Some (Naive 1714528800000000)"
  by (simp_all add: clock_runtime_def str_def)

lemma keep_example:
  "keep_event clock_runtime example_query 1714544400000000 tokyo_item = Inr True"
  "keep_event clock_runtime example_query 1714544400000000 equator_item = Inr False"
  "keep_event clock_runtime example_query 1714544400000000 stale_item = Inr False"
  by (simp_all add: keep_event_def parse_published_def replace_Z_example fromisoformat_example
      tokyo_item_def equator_item_def stale_item_def example_query_def dict_get_def
      dict_get_default_def ebind_def py_or_def)

lemma get_events_example:
  "get_events clock_runtime example_query 1714566000000000 1714566000 example_db =
     Inr (1, [tokyo_item])"
proof -
  have "published_key tokyo_item \<noteq> None"
    by (simp add: published_key_def dict_get_default_def tokyo_item_def)
  moreover have "hours example_query = 6"
    by (simp add: example_query_def)
  ultimately show ?thesis
    by (simp add: get_events_def example_stored keep_example ebind_def sort_events_def)
qed

lemma example_normalized:
  "normalized_item tokyo_item" "normalized_item equator_item" "normalized_item stale_item"
  by (simp_all add: normalized_item_def tokyo_item_def equator_item_def stale_item_def)

text \<open>
  Of the three stored events the query with all six predicates returns the one in
  Tokyo, which satisfies them all.
\<close>

theorem get_events_filter_witness:
  "get_events clock_runtime example_query 1714566000000000 1714566000 example_db =
     Inr (1, [tokyo_item]) \<and>
   tokyo_item \<in> set (get_all_events (str ''event'') 1714566000 example_db) \<and>
   list_all normalized_item (get_all_events (str ''event'') 1714566000 example_db) \<and>
   published_since clock_runtime 1714544400000000 tokyo_item \<and>
   severity_at_least 4 tokyo_item \<and>
   dict_get tokyo_item ''category'' = PStr (str ''conflict'') \<and>
   topic_listed (str ''protests'') tokyo_item \<and>
   truthy (dict_get tokyo_item ''is_breaking'') \<and>
   dict_get tokyo_item ''source_type'' = PStr (str ''rss'')"
proof -
  have mem: "tokyo_item \<in> set [tokyo_item]" by simp
  note inst = get_events_filter [of clock_runtime example_query 1714566000000000 1714566000
      example_db 1 "[tokyo_item]" tokyo_item, THEN conjunct1, rule_format,
      OF conjI [OF get_events_example mem]]
  have q: "category example_query = Some (str ''conflict'')"
    "topic example_query = Some (str ''protests'')" "min_severity example_query = 4"
    "hours example_query = 6" "breaking_only example_query"
    "source_type example_query = Some (str ''rss'')"
    by (simp_all add: example_query_def)
  have ne: "str ''conflict'' \<noteq> []" "str ''protests'' \<noteq> []" "str ''rss'' \<noteq> []"
    by (simp_all add: str_def)
  from inst show ?thesis
    by (simp add: q ne example_normalized example_stored get_events_example)
qed

text \<open>
  Claim C10. An event whose \<open>lat\<close> or \<open>lon\<close> is missing, null or exactly zero is
  never among the events the query returns: the geo-presence check tests the truth value
  of the two fields.
\<close>

theorem get_events_drops_zero_coordinates:
  assumes "get_events R q now redis_now db = Inr (count, events)"
    and "dict_get e ''lat'' \<in> {PNone, PInt 0, PFloat 0} \<or>
         dict_get e ''lon'' \<in> {PNone, PInt 0, PFloat 0}"
  shows "e \<notin> set events"
proof
  assume "e \<in> set events"
  from get_events_subset(2)[OF assms(1) this]
  have "truthy (dict_get e ''lat'')" "truthy (dict_get e ''lon'')"
    by (rule keep_event_True(1), rule keep_event_True(2))
  with assms(2) show False by auto
qed

text \<open>
  The event on the equator is stored and has coordinates, and is not returned; moved
  off the equator by a millionth of a degree it passes every check of the loop.
\<close>

theorem get_events_drops_zero_coordinates_witness:
  "get_events clock_runtime example_query 1714566000000000 1714566000 example_db =
     Inr (1, [tokyo_item]) \<and>
   equator_item \<in> set (get_all_events (str ''event'') 1714566000 example_db) \<and>
   dict_get equator_item ''lat'' = PFloat 0 \<and>
   dict_get equator_item ''lon'' = PFloat (13969 / 100) \<and>
   keep_event clock_runtime example_query 1714544400000000
     (AList.update ''lat'' (PFloat (1 / 1000000)) equator_item) = Inr True \<and>
   equator_item \<notin> set [tokyo_item]"
proof -
  have lat: "dict_get equator_item ''lat'' = PFloat 0"
    and lon: "dict_get equator_item ''lon'' = PFloat (13969 / 100)"
    by (simp_all add: dict_get_def equator_item_def tokyo_item_def)
  have "keep_event clock_runtime example_query 1714544400000000
     (AList.update ''lat'' (PFloat (1 / 1000000)) equator_item) = Inr True"
    by (simp add: keep_event_def parse_published_def replace_Z_example fromisoformat_example
      tokyo_item_def equator_item_def example_query_def dict_get_def
      dict_get_default_def ebind_def py_or_def)
  with get_events_drops_zero_coordinates [of clock_runtime example_query 1714566000000000
      1714566000 example_db 1 "[tokyo_item]" equator_item] lat lon
  show ?thesis by (simp add: get_events_example example_stored)
qed

section \<open>Identity\<close>

lemma length_hex32: "length (hex32 w) = 8"
  by (simp add: hex32_def)

lemma hex_digit_hex: "hex_digit n \<in> hex_chars"
proof -
  have "n mod 16 < length ''0123456789abcdef''" by simp
  then show ?thesis unfolding hex_digit_def hex_chars_def by (rule nth_mem)
qed

lemma hex32_hex: "hex_string (hex32 w)"
  by (simp add: hex_string_def hex32_def list_all_iff hex_digit_hex)

lemma hex_string_append: "hex_string (a @ b) = (hex_string a \<and> hex_string b)"
  by (simp add: hex_string_def)

lemma hex_string_take: "hex_string s \<Longrightarrow> hex_string (take n s)"
  by (auto simp: hex_string_def list_all_iff dest: in_set_takeD)

lemma hexdigest_shape: "length (hexdigest hs) = 64 \<and> hex_string (hexdigest hs)"
  by (cases hs rule: hexdigest.cases) (simp add: length_hex32 hex32_hex hex_string_append)

lemma encode_total: "encodable s \<Longrightarrow> \<exists>bytes. encode s = Inr bytes"
proof (induction s)
  case Nil
  then show ?case by simp
next
  case (Cons c s)
  then obtain bytes where "encode s = Inr bytes" by (auto simp: encodable_def)
  moreover from Cons.prems have "utf8 c \<noteq> None" by (auto simp: encodable_def utf8_def)
  ultimately show ?case by (auto simp: ebind_def)
qed

lemma encode_fails: "\<not> encodable s \<Longrightarrow> encode s = Inl UnicodeEncodeError"
proof (induction s)
  case Nil
  then show ?case by (simp add: encodable_def)
next
  case (Cons c s)
  show ?case
  proof (cases "utf8 c")
    case None
    then show ?thesis by simp
  next
    case (Some bytes)
    then have "c < 1114112 \<and> \<not> (55296 \<le> c \<and> c \<le> 57343)"
      by (auto simp: utf8_def split: if_splits)
    with Cons.prems have "\<not> encodable s" by (simp add: encodable_def)
    with Cons.IH Some show ?thesis by (simp add: ebind_def)
  qed
qed

text \<open>
  Claim C6. Both identity functions are functions of their arguments alone: equal
  \<open>(url, title)\<close> give equal results of \<open>make_event_id\<close>, and for one account two texts
  that agree on their first 80 code points give equal results of \<open>tweet_id\<close>, in
  whatever ingestion cycle the calls are made. An identifier that is returned has 16
  characters, all of them lower-case hexadecimal digits, and one is returned whenever
  the hashed string can be encoded.
\<close>

theorem identity_deterministic:
  "(url' = url \<and> title' = title \<longrightarrow> make_event_id url' title' = make_event_id url title) \<and>
   (take 80 text' = take 80 text \<longrightarrow> tweet_id account text' = tweet_id account text) \<and>
   (\<forall>i. make_event_id url title = Inr i \<longrightarrow> length i = 16 \<and> hex_string i) \<and>
   (\<forall>i. tweet_id account text = Inr i \<longrightarrow> length i = 16 \<and> hex_string i) \<and>
   (encodable (url @ title) \<longrightarrow> (\<exists>i. make_event_id url title = Inr i)) \<and>
   (encodable (account @ take 80 text) \<longrightarrow> (\<exists>i. tweet_id account text = Inr i))"
proof (intro conjI allI impI)
  show "make_event_id url' title' = make_event_id url title" if "url' = url \<and> title' = title"
    using that by simp
  show "tweet_id account text' = tweet_id account text" if "take 80 text' = take 80 text"
    using that by (simp add: tweet_id_def)
  show "length i = 16" "hex_string i" if "make_event_id url title = Inr i" for i
    using that
    by (auto simp: make_event_id_def ebind_def hex_string_take hexdigest_shape
        simp del: hexdigest.simps split: sum.splits)
  show "length i = 16" "hex_string i" if "tweet_id account text = Inr i" for i
    using that
    by (auto simp: tweet_id_def ebind_def hex_string_take hexdigest_shape
        simp del: hexdigest.simps split: sum.splits)
  show "\<exists>i. make_event_id url title = Inr i" if "encodable (url @ title)"
    using encode_total[OF that] by (auto simp: make_event_id_def ebind_def)
  show "\<exists>i. tweet_id account text = Inr i" if "encodable (account @ take 80 text)"
    using encode_total[OF that] by (auto simp: tweet_id_def ebind_def)
qed

text \<open>
  An identifier exists for a URL and a title, and two tweets that differ only in their
  81st character have the same identifier.
\<close>

theorem identity_deterministic_witness:
  "(\<exists>i. make_event_id (str ''https://example.org/a'') (str ''Quake'') = Inr i \<and>
        length i = 16 \<and> hex_string i) \<and>
   tweet_id (str ''Conflicts'') (replicate 80 97 @ str ''x'') =
     tweet_id (str ''Conflicts'') (replicate 80 97 @ str ''y'')"
proof -
  have enc: "encodable (str ''https://example.org/a'' @ str ''Quake'')"
    by (simp add: encodable_def str_def)
  have same: "take 80 (replicate 80 97 @ str ''x'') = take 80 (replicate 80 97 @ str ''y'')"
    by simp
  note inst = identity_deterministic [of "str ''https://example.org/a''"
      "str ''https://example.org/a''" "str ''Quake''" "str ''Quake''"
      "replicate 80 97 @ str ''x''" "replicate 80 97 @ str ''y''" "str ''Conflicts''"]
  from inst enc obtain i where i: "make_event_id (str ''https://example.org/a'') (str ''Quake'') = Inr i"
    by blast
  with inst have "length i = 16 \<and> hex_string i" by blast
  moreover from inst same
  have "tweet_id (str ''Conflicts'') (replicate 80 97 @ str ''x'') =
     tweet_id (str ''Conflicts'') (replicate 80 97 @ str ''y'')" by blast
  ultimately show ?thesis using i by blast
qed

section \<open>Social adapter\<close>








section \<open>The store\<close>




















end
